theory Spec2Isabelle
  imports Complex_Main
begin

section \<open>Credit bureau feature extractor: a shallow embedding\<close>

text \<open>
  The program is the Python class \<open>CreditBureauFeatureExtractor\<close> of
  \<^verbatim>\<open>credit_bureau_feat_extractor.py\<close>. Its inputs are documents decoded from
  JSON, so a Python value is one of \<open>None\<close>, a bool, an int, a float, a string,
  a list or a dict with string keys. A dict is an association list in insertion order
  (keys distinct in every well-formed document; lookup takes the first binding).

  Conventions of the model:
  \<^item> a string is a list of 8-bit characters, read as the code points 0 to 255;
  \<^item> a float is represented by the exact rational it denotes; IEEE rounding,
    infinities and NaN are not modelled;
  \<^item> every exception of the source is a value \<open>Inl e\<close> of the result type;
  \<^item> the wall clock (\<open>datetime.today()\<close>, \<open>datetime.now()\<close>) is a parameter
    \<open>now\<close>, one instant for a whole call;
  \<^item> the builtin \<open>str()\<close> applied to a value that is not a string is a parameter
    \<open>str_of\<close>.
\<close>

subsection \<open>Python values\<close>

datatype pyval =
    PNone
  | PBool bool
  | PInt int
  | PFloat rat
  | PStr string
  | PList "pyval list"
  | PDict "(string \<times> pyval) list"

datatype py_error = AttributeError | TypeError | KeyError | ValueError | ZeroDivisionError

type_synonym 'a result = "py_error + 'a"

text \<open>Sequencing of fallible steps: the first exception ends the computation.\<close>

definition bind_result :: "'a result \<Rightarrow> ('a \<Rightarrow> 'b result) \<Rightarrow> 'b result" where
  "bind_result r f = (case r of Inl e \<Rightarrow> Inl e | Inr v \<Rightarrow> f v)"

text \<open>Truth value of a Python object (\<open>not x\<close>, \<open>if x\<close>).\<close>

fun truthy :: "pyval \<Rightarrow> bool" where
  "truthy PNone = False"
| "truthy (PBool b) = b"
| "truthy (PInt i) = (i \<noteq> 0)"
| "truthy (PFloat x) = (x \<noteq> 0)"
| "truthy (PStr s) = (s \<noteq> [])"
| "truthy (PList xs) = (xs \<noteq> [])"
| "truthy (PDict kvs) = (kvs \<noteq> [])"

text \<open>\<open>isinstance(value, (int, float))\<close>; \<open>bool\<close> is a subclass of \<open>int\<close>.\<close>

fun isinstance_int_float :: "pyval \<Rightarrow> bool" where
  "isinstance_int_float (PBool b) = True"
| "isinstance_int_float (PInt i) = True"
| "isinstance_int_float (PFloat x) = True"
| "isinstance_int_float v = False"

fun isinstance_str :: "pyval \<Rightarrow> bool" where
  "isinstance_str (PStr s) = True"
| "isinstance_str v = False"

fun isinstance_dict :: "pyval \<Rightarrow> bool" where
  "isinstance_dict (PDict kvs) = True"
| "isinstance_dict v = False"

text \<open>\<open>str(value)\<close>: the identity on a string, the parameter elsewhere.\<close>

fun py_str :: "(pyval \<Rightarrow> string) \<Rightarrow> pyval \<Rightarrow> string" where
  "py_str str_of (PStr s) = s"
| "py_str str_of v = str_of v"

text \<open>\<open>x.get(key, default)\<close>: only a dict has the method.\<close>

fun py_get :: "pyval \<Rightarrow> string \<Rightarrow> pyval \<Rightarrow> pyval result" where
  "py_get (PDict kvs) k dflt = Inr (case map_of kvs k of None \<Rightarrow> dflt | Some v \<Rightarrow> v)"
| "py_get v k dflt = Inl AttributeError"

text \<open>\<open>x[key]\<close> with a string key: \<open>KeyError\<close> on a dict without the key,
  \<open>TypeError\<close> on a string, a list and on every value that is not subscriptable.\<close>

fun py_getitem :: "pyval \<Rightarrow> string \<Rightarrow> pyval result" where
  "py_getitem (PDict kvs) k = (case map_of kvs k of None \<Rightarrow> Inl KeyError | Some v \<Rightarrow> Inr v)"
| "py_getitem v k = Inl TypeError"

text \<open>\<open>key in x\<close> for a dict.\<close>

definition dict_has_key :: "(string \<times> pyval) list \<Rightarrow> string \<Rightarrow> bool" where
  "dict_has_key kvs k = (k \<in> set (map fst kvs))"

text \<open>\<open>for x in v\<close>: a list yields its elements, a string its characters, a dict
  its keys; a number, a bool and \<open>None\<close> are not iterable.\<close>

fun py_iter :: "pyval \<Rightarrow> pyval list result" where
  "py_iter (PList xs) = Inr xs"
| "py_iter (PStr s) = Inr (map (\<lambda>c. PStr [c]) s)"
| "py_iter (PDict kvs) = Inr (map (\<lambda>kv. PStr (fst kv)) kvs)"
| "py_iter v = Inl TypeError"

subsection \<open>Strings\<close>

text \<open>The whitespace of \<open>str.strip()\<close> and of the regular expression \<open>\s\<close>
  among the code points below 256.\<close>

definition is_space :: "char \<Rightarrow> bool" where
  "is_space c = (c \<in> set [CHR 0x09, CHR 0x0A, CHR 0x0B, CHR 0x0C, CHR 0x0D,
                           CHR 0x1C, CHR 0x1D, CHR 0x1E, CHR 0x1F, CHR 0x20,
                           CHR 0x85, CHR 0xA0])"

definition is_digit :: "char \<Rightarrow> bool" where
  "is_digit c = (c \<in> set ''0123456789'')"

definition py_strip :: "string \<Rightarrow> string" where
  "py_strip s = rev (dropWhile is_space (rev (dropWhile is_space s)))"

text \<open>\<open>re.sub(r'[^\d.]', '', s)\<close>: keep the digits and the dots.\<close>

definition re_sub_non_numeric :: "string \<Rightarrow> string" where
  "re_sub_non_numeric s = filter (\<lambda>c. is_digit c \<or> c = CHR ''.'') s"

definition digit_val :: "char \<Rightarrow> nat" where
  "digit_val c = of_char c - 48"

definition nat_of_digits :: "string \<Rightarrow> nat" where
  "nat_of_digits s = foldl (\<lambda>a c. 10 * a + digit_val c) 0 s"

text \<open>
  \<open>float(t)\<close> for a string \<open>t\<close> of digits and dots, which is all that
  \<open>re_sub_non_numeric\<close> lets through: an optional integer part, an optional dot and
  an optional fraction, with at least one digit. Everything else is a \<open>ValueError\<close>.
\<close>

definition py_float :: "string \<Rightarrow> rat result" where
  "py_float t =
     (let ip = takeWhile is_digit t; rest = dropWhile is_digit t in
      case rest of
        [] \<Rightarrow> if ip = [] then Inl ValueError else Inr (of_nat (nat_of_digits ip))
      | c # fp \<Rightarrow>
          if c \<noteq> CHR ''.'' \<or> \<not> list_all is_digit fp \<or> (ip = [] \<and> fp = [])
          then Inl ValueError
          else Inr (of_nat (nat_of_digits ip)
                    + of_nat (nat_of_digits fp) / of_nat (10 ^ length fp)))"

subsection \<open>Numeric normalizer\<close>

definition clean_numeric :: "(pyval \<Rightarrow> string) \<Rightarrow> pyval \<Rightarrow> pyval" where
  "clean_numeric str_of v =
     (if v = PNone \<or> isinstance_int_float v then (if v \<noteq> PNone then v else PInt 0)
      else if isinstance_str v
              \<and> py_strip (py_str str_of v) \<in> set [[], ''-'', ''null'', ''None'']
      then PInt 0
      else (case py_float (re_sub_non_numeric (py_str str_of v)) of
              Inl e \<Rightarrow> PInt 0
            | Inr x \<Rightarrow> PFloat x))"

subsection \<open>Calendar and clock\<close>

text \<open>A naive \<open>datetime\<close>: its seven fields.\<close>

record datetime =
  dt_year :: int
  dt_month :: int
  dt_day :: int
  dt_hour :: int
  dt_minute :: int
  dt_second :: int
  dt_microsecond :: int

definition is_leap :: "int \<Rightarrow> bool" where
  "is_leap y = (y mod 4 = 0 \<and> (y mod 100 \<noteq> 0 \<or> y mod 400 = 0))"

definition days_in_month :: "int \<Rightarrow> int \<Rightarrow> int" where
  "days_in_month y m =
     (if m = 2 then (if is_leap y then 29 else 28)
      else if m \<in> {4, 6, 9, 11} then 30 else 31)"

definition days_before_year :: "int \<Rightarrow> int" where
  "days_before_year y = (y - 1) * 365 + (y - 1) div 4 - (y - 1) div 100 + (y - 1) div 400"

definition days_before_month :: "int \<Rightarrow> int \<Rightarrow> int" where
  "days_before_month y m = (\<Sum>k \<leftarrow> [1..<nat m]. days_in_month y (int k))"

text \<open>\<open>toordinal()\<close>: the proleptic Gregorian day number, 1 for 0001-01-01.\<close>

definition toordinal :: "datetime \<Rightarrow> int" where
  "toordinal d = days_before_year (dt_year d) + days_before_month (dt_year d) (dt_month d) + dt_day d"

text \<open>The constructor \<open>datetime(year, month, day, hour, minute, second, microsecond)\<close>
  raises \<open>ValueError\<close> on a field out of range.\<close>

definition mk_datetime :: "int \<Rightarrow> int \<Rightarrow> int \<Rightarrow> int \<Rightarrow> int \<Rightarrow> int \<Rightarrow> int \<Rightarrow> datetime result" where
  "mk_datetime y m d hh mm ss us =
     (if 1 \<le> y \<and> y \<le> 9999 \<and> 1 \<le> m \<and> m \<le> 12 \<and> 1 \<le> d \<and> d \<le> days_in_month y m
         \<and> 0 \<le> hh \<and> hh \<le> 23 \<and> 0 \<le> mm \<and> mm \<le> 59 \<and> 0 \<le> ss \<and> ss \<le> 59
         \<and> 0 \<le> us \<and> us \<le> 999999
      then Inr \<lparr>dt_year = y, dt_month = m, dt_day = d, dt_hour = hh, dt_minute = mm,
                dt_second = ss, dt_microsecond = us\<rparr>
      else Inl ValueError)"

text \<open>\<open>(a - b).days\<close>: the difference is a \<open>timedelta\<close>, normalised so that its
  seconds and microseconds are not negative; its days are the floor of the difference
  in days.\<close>

definition seconds_of_day :: "datetime \<Rightarrow> int" where
  "seconds_of_day d = dt_second d + dt_minute d * 60 + dt_hour d * 3600"

definition elapsed_microseconds :: "datetime \<Rightarrow> datetime \<Rightarrow> int" where
  "elapsed_microseconds a b =
     ((toordinal a - toordinal b) * 86400 + (seconds_of_day a - seconds_of_day b)) * 1000000
       + (dt_microsecond a - dt_microsecond b)"

definition timedelta_days :: "datetime \<Rightarrow> datetime \<Rightarrow> int" where
  "timedelta_days a b = elapsed_microseconds a b div (86400 * 1000000)"

subsection \<open>\<open>datetime.strptime\<close> for the two formats of the program\<close>

text \<open>
  \<open>strptime\<close> turns the format into a regular expression, matches it at the start of
  the string, and raises \<open>ValueError\<close> when nothing matches, when the match does not
  end the string, or when the fields are no date. A group of the expression is modelled
  by the list of its matches at the start of the string, in the order in which the
  backtracking matcher tries them, each with the text matched and the text left.
    \<^item> \<open>%d\<close> is \<^verbatim>\<open>3[0-1]|[1-2]\d|0[1-9]|[1-9]| [1-9]\<close>
    \<^item> \<open>%m\<close> is \<^verbatim>\<open>1[0-2]|0[1-9]|[1-9]\<close>
    \<^item> \<open>%Y\<close> is \<^verbatim>\<open>\d\d\d\d\<close>
    \<^item> \<open>%H\<close> is \<^verbatim>\<open>2[0-3]|[0-1]\d|\d\<close>
    \<^item> \<open>%M\<close> is \<^verbatim>\<open>[0-5]\d|\d\<close>
    \<^item> \<open>%S\<close> is \<^verbatim>\<open>6[0-1]|[0-5]\d|\d\<close>
    \<^item> a blank of the format is \<^verbatim>\<open>\s+\<close>
\<close>

type_synonym re_match = "(string \<times> string) list"

definition in_chars :: "string \<Rightarrow> char \<Rightarrow> bool" where
  "in_chars cs c = (c \<in> set cs)"

definition re_cls1 :: "(char \<Rightarrow> bool) \<Rightarrow> string \<Rightarrow> re_match" where
  "re_cls1 p s = (case s of a # r \<Rightarrow> if p a then [([a], r)] else [] | _ \<Rightarrow> [])"

definition re_cls2 :: "(char \<Rightarrow> bool) \<Rightarrow> (char \<Rightarrow> bool) \<Rightarrow> string \<Rightarrow> re_match" where
  "re_cls2 p q s = (case s of a # b # r \<Rightarrow> if p a \<and> q b then [([a, b], r)] else [] | _ \<Rightarrow> [])"

definition re_lit :: "char \<Rightarrow> string \<Rightarrow> re_match" where
  "re_lit c s = re_cls1 (\<lambda>a. a = c) s"

definition re_d :: "string \<Rightarrow> re_match" where
  "re_d s = re_cls2 (in_chars ''3'') (in_chars ''01'') s
          @ re_cls2 (in_chars ''12'') is_digit s
          @ re_cls2 (in_chars ''0'') (in_chars ''123456789'') s
          @ re_cls1 (in_chars ''123456789'') s
          @ re_cls2 (in_chars '' '') (in_chars ''123456789'') s"

definition re_m :: "string \<Rightarrow> re_match" where
  "re_m s = re_cls2 (in_chars ''1'') (in_chars ''012'') s
          @ re_cls2 (in_chars ''0'') (in_chars ''123456789'') s
          @ re_cls1 (in_chars ''123456789'') s"

definition re_Y :: "string \<Rightarrow> re_match" where
  "re_Y s = (case s of
               a # b # c # d # r \<Rightarrow>
                 if is_digit a \<and> is_digit b \<and> is_digit c \<and> is_digit d
                 then [([a, b, c, d], r)] else []
             | _ \<Rightarrow> [])"

definition re_H :: "string \<Rightarrow> re_match" where
  "re_H s = re_cls2 (in_chars ''2'') (in_chars ''0123'') s
          @ re_cls2 (in_chars ''01'') is_digit s
          @ re_cls1 is_digit s"

definition re_M :: "string \<Rightarrow> re_match" where
  "re_M s = re_cls2 (in_chars ''012345'') is_digit s @ re_cls1 is_digit s"

definition re_S :: "string \<Rightarrow> re_match" where
  "re_S s = re_cls2 (in_chars ''6'') (in_chars ''01'') s
          @ re_cls2 (in_chars ''012345'') is_digit s
          @ re_cls1 is_digit s"

text \<open>\<^verbatim>\<open>\s+\<close> is greedy: the longest run first, then shorter ones.\<close>

definition re_spaces :: "string \<Rightarrow> re_match" where
  "re_spaces s = map (\<lambda>k. (take k s, drop k s)) (rev [1..<Suc (length (takeWhile is_space s))])"

text \<open>\<open>int(t)\<close> for the text of a group: blanks around the digits are ignored.\<close>

definition py_int :: "string \<Rightarrow> int" where
  "py_int t = int (nat_of_digits (py_strip t))"

text \<open>The expression of \<^verbatim>\<open>"%d/%m/%Y"\<close>.\<close>

definition re_date :: "string \<Rightarrow> (string \<times> string \<times> string \<times> string) list" where
  "re_date s =
     [(d, m, y, r5).
        (d, r1) \<leftarrow> re_d s, (u, r2) \<leftarrow> re_lit CHR ''/'' r1,
        (m, r3) \<leftarrow> re_m r2, (v, r4) \<leftarrow> re_lit CHR ''/'' r3,
        (y, r5) \<leftarrow> re_Y r4]"

definition strptime_date :: "string \<Rightarrow> datetime result" where
  "strptime_date s =
     (case re_date s of
        [] \<Rightarrow> Inl ValueError
      | (d, m, y, rest) # _ \<Rightarrow>
          if rest \<noteq> [] then Inl ValueError
          else mk_datetime (py_int y) (py_int m) (py_int d) 0 0 0 0)"

text \<open>The expression of \<^verbatim>\<open>"%d/%m/%Y %H:%M:%S"\<close>.\<close>

definition re_time :: "string \<Rightarrow> (string \<times> string \<times> string \<times> string) list" where
  "re_time s =
     [(hh, mm, ss, r5).
        (hh, r1) \<leftarrow> re_H s, (u, r2) \<leftarrow> re_lit CHR '':'' r1,
        (mm, r3) \<leftarrow> re_M r2, (v, r4) \<leftarrow> re_lit CHR '':'' r3,
        (ss, r5) \<leftarrow> re_S r4]"

definition re_date_time ::
  "string \<Rightarrow> ((string \<times> string \<times> string) \<times> (string \<times> string \<times> string) \<times> string) list" where
  "re_date_time s =
     [((d, m, y), (hh, mm, ss), r3).
        (d, m, y, r1) \<leftarrow> re_date s, (w, r2) \<leftarrow> re_spaces r1,
        (hh, mm, ss, r3) \<leftarrow> re_time r2]"

definition strptime_date_time :: "string \<Rightarrow> datetime result" where
  "strptime_date_time s =
     (case re_date_time s of
        [] \<Rightarrow> Inl ValueError
      | ((d, m, y), (hh, mm, ss), rest) # _ \<Rightarrow>
          if rest \<noteq> [] then Inl ValueError
          else mk_datetime (py_int y) (py_int m) (py_int d) (py_int hh) (py_int mm) (py_int ss) 0)"

text \<open>\<open>datetime.strptime(v, fmt)\<close>: a first argument that is no string is a
  \<open>TypeError\<close>.\<close>

fun strptime :: "(string \<Rightarrow> datetime result) \<Rightarrow> pyval \<Rightarrow> datetime result" where
  "strptime fmt (PStr s) = fmt s"
| "strptime fmt v = Inl TypeError"

subsection \<open>Date/age calculator\<close>

text \<open>\<open>(a, b) < (c, d)\<close> on pairs of ints.\<close>

definition tuple_less :: "int \<times> int \<Rightarrow> int \<times> int \<Rightarrow> bool" where
  "tuple_less p q = (fst p < fst q \<or> (fst p = fst q \<and> snd p < snd q))"

text \<open>\<open>v.strip()\<close>: only a string has the method.\<close>

fun py_strip_method :: "pyval \<Rightarrow> string result" where
  "py_strip_method (PStr s) = Inr (py_strip s)"
| "py_strip_method v = Inl AttributeError"

text \<open>The \<open>try\<close> block of \<open>calculate_age\<close>.\<close>

definition calculate_age_body :: "datetime \<Rightarrow> pyval \<Rightarrow> int result" where
  "calculate_age_body now birthdate_str =
     bind_result (strptime strptime_date birthdate_str) (\<lambda>birthdate.
       let today = now in
       Inr (dt_year today - dt_year birthdate
            - (if tuple_less (dt_month today, dt_day today) (dt_month birthdate, dt_day birthdate)
               then 1 else 0)))"

text \<open>\<open>calculate_age\<close>: \<open>None\<close> is \<open>Inr None\<close>, an age is \<open>Inr (Some a)\<close>. The
  test before the \<open>try\<close> can raise; the bare \<open>except\<close> catches everything raised
  inside it.\<close>

definition calculate_age :: "datetime \<Rightarrow> pyval \<Rightarrow> int option result" where
  "calculate_age now birthdate_str =
     (if \<not> truthy birthdate_str then Inr None
      else bind_result (py_strip_method birthdate_str) (\<lambda>stripped.
        if stripped \<in> set [[], ''-''] then Inr None
        else (case calculate_age_body now birthdate_str of
                Inl e \<Rightarrow> Inr None
              | Inr age \<Rightarrow> Inr (Some age))))"

subsection \<open>Feature mappings and arithmetic\<close>

text \<open>A feature mapping is a dict under construction: \<open>d[k] = v\<close> replaces the value of
  a key that is there and appends a new key; \<open>d.update(e)\<close> does so for every item
  of \<open>e\<close> in order.\<close>

type_synonym features = "(string \<times> pyval) list"

fun dict_set :: "features \<Rightarrow> string \<Rightarrow> pyval \<Rightarrow> features" where
  "dict_set [] k v = [(k, v)]"
| "dict_set ((k', v') # kvs) k v =
     (if k' = k then (k, v) # kvs else (k', v') # dict_set kvs k v)"

definition dict_update :: "features \<Rightarrow> features \<Rightarrow> features" where
  "dict_update d e = foldl (\<lambda>acc kv. dict_set acc (fst kv) (snd kv)) d e"

fun int_like :: "pyval \<Rightarrow> int option" where
  "int_like (PBool b) = Some (if b then 1 else 0)"
| "int_like (PInt i) = Some i"
| "int_like v = None"

fun num_val :: "pyval \<Rightarrow> rat option" where
  "num_val (PFloat x) = Some x"
| "num_val v = map_option of_int (int_like v)"

text \<open>\<open>a + b\<close>, \<open>a > b\<close> and \<open>a / b\<close> where \<open>a\<close> is a number, as every left
  operand of the program is: ints add to an int, a float operand makes the sum a float,
  and a right operand that is no number is a \<open>TypeError\<close>.\<close>

definition num_add :: "pyval \<Rightarrow> pyval \<Rightarrow> pyval result" where
  "num_add a b =
     (case (int_like a, int_like b) of
        (Some x, Some y) \<Rightarrow> Inr (PInt (x + y))
      | _ \<Rightarrow> (case (num_val a, num_val b) of
                (Some x, Some y) \<Rightarrow> Inr (PFloat (x + y))
              | _ \<Rightarrow> Inl TypeError))"

definition num_gt :: "pyval \<Rightarrow> pyval \<Rightarrow> bool result" where
  "num_gt a b =
     (case (num_val a, num_val b) of
        (Some x, Some y) \<Rightarrow> Inr (x > y)
      | _ \<Rightarrow> Inl TypeError)"

definition num_truediv :: "pyval \<Rightarrow> pyval \<Rightarrow> pyval result" where
  "num_truediv a b =
     (case (num_val a, num_val b) of
        (Some x, Some y) \<Rightarrow> if y = 0 then Inl ZeroDivisionError else Inr (PFloat (x / y))
      | _ \<Rightarrow> Inl TypeError)"

text \<open>\<open>str.lower()\<close> on the code points below 256, and \<open>p in s\<close> for strings.\<close>

definition lower_char :: "char \<Rightarrow> char" where
  "lower_char c =
     (let n = (of_char c :: nat) in
      if (65 \<le> n \<and> n \<le> 90) \<or> (192 \<le> n \<and> n \<le> 222 \<and> n \<noteq> 215)
      then char_of (n + 32) else c)"

definition py_lower :: "string \<Rightarrow> string" where
  "py_lower s = map lower_char s"

fun starts_with :: "string \<Rightarrow> string \<Rightarrow> bool" where
  "starts_with [] s = True"
| "starts_with (a # p) [] = False"
| "starts_with (a # p) (b # s) = (a = b \<and> starts_with p s)"

fun str_contains :: "string \<Rightarrow> string \<Rightarrow> bool" where
  "str_contains p [] = (p = [])"
| "str_contains p (c # s) = (starts_with p (c # s) \<or> str_contains p s)"

text \<open>\<open>d.items()\<close>: only a dict has the method.\<close>

fun py_items :: "pyval \<Rightarrow> (string \<times> pyval) list result" where
  "py_items (PDict kvs) = Inr kvs"
| "py_items v = Inl AttributeError"

text \<open>\<open>k in x\<close> for a string \<open>k\<close>: a key of a dict, a substring of a string, an
  element of a list; other values are no containers.\<close>

fun py_in :: "string \<Rightarrow> pyval \<Rightarrow> bool result" where
  "py_in k (PDict kvs) = Inr (dict_has_key kvs k)"
| "py_in k (PStr s) = Inr (str_contains k s)"
| "py_in k (PList xs) = Inr (PStr k \<in> set xs)"
| "py_in k v = Inl TypeError"

subsection \<open>Section extractors\<close>

definition bad_account_fields :: "string list" where
  "bad_account_fields =
     [''noofotheraccountsbad'', ''noofretailaccountsbad'', ''nooftelecomaccountsbad'',
      ''noofautoloanaccountsbad'', ''noofhomeloanaccountsbad'', ''noofjointloanaccountsbad'',
      ''noofstudyloanaccountsbad'', ''noofcreditcardaccountsbad'',
      ''noofpersonalloanaccountsbad'']"

definition good_account_fields :: "string list" where
  "good_account_fields =
     [''noofotheraccountsgood'', ''noofretailaccountsgood'', ''nooftelecomaccountsgood'',
      ''noofautoloanccountsgood'', ''noofhomeloanaccountsgood'', ''noofjointloanaccountsgood'',
      ''noofstudyloanaccountsgood'', ''noofcreditcardaccountsgood'',
      ''noofpersonalloanaccountsgood'']"

text \<open>\<open>sum(self.clean_numeric(account_rating.get(field, 0)) for field in fields)\<close>:
  the generator is consumed from the left, starting from the int 0.\<close>

fun sum_fields :: "(pyval \<Rightarrow> string) \<Rightarrow> pyval \<Rightarrow> string list \<Rightarrow> pyval \<Rightarrow> pyval result" where
  "sum_fields str_of d [] acc = Inr acc"
| "sum_fields str_of d (field # fs) acc =
     bind_result (py_get d field (PInt 0)) (\<lambda>x.
     bind_result (num_add acc (clean_numeric str_of x)) (\<lambda>acc'.
     sum_fields str_of d fs acc'))"

definition process_account_ratings :: "(pyval \<Rightarrow> string) \<Rightarrow> pyval \<Rightarrow> features result" where
  "process_account_ratings str_of account_rating =
     bind_result (sum_fields str_of account_rating bad_account_fields (PInt 0)) (\<lambda>bad.
     bind_result (sum_fields str_of account_rating good_account_fields (PInt 0)) (\<lambda>good.
     Inr (dict_set (dict_set [] ''no_of_bad_accounts'' bad) ''no_of_good_accounts'' good)))"

definition process_credit_summary :: "(pyval \<Rightarrow> string) \<Rightarrow> pyval \<Rightarrow> features result" where
  "process_credit_summary str_of credit_summary =
     bind_result (py_get credit_summary ''totaloutstandingdebt'' (PInt 0)) (\<lambda>debt.
     bind_result (py_get credit_summary ''amountarrear'' (PInt 0)) (\<lambda>arrear.
     bind_result (py_get credit_summary ''totalmonthlyinstalment'' (PInt 0)) (\<lambda>instalment.
     bind_result (py_get credit_summary ''totalnumberofjudgement'' (PInt 0)) (\<lambda>judgement.
     Inr (dict_set (dict_set (dict_set (dict_set []
            ''total_outstanding_debt'' (clean_numeric str_of debt))
            ''total_arrears'' (clean_numeric str_of arrear))
            ''total_monthly_instalment'' (clean_numeric str_of instalment))
            ''total_number_of_judgements'' (clean_numeric str_of judgement))))))"

text \<open>The \<open>try\<close> block of the enquiry loop: whether the entry is counted.\<close>

definition enquiry_is_recent :: "datetime \<Rightarrow> pyval \<Rightarrow> bool result" where
  "enquiry_is_recent now enquiry =
     bind_result (py_getitem enquiry ''daterequested'') (\<lambda>v.
     bind_result (strptime strptime_date_time v) (\<lambda>enquiry_date.
     Inr (timedelta_days now enquiry_date \<le> 90)))"

text \<open>The loop: an exception in the \<open>try\<close> block goes on with the next entry.\<close>

fun count_recent :: "datetime \<Rightarrow> pyval list \<Rightarrow> int \<Rightarrow> int" where
  "count_recent now [] recent_count = recent_count"
| "count_recent now (enquiry # rest) recent_count =
     (case enquiry_is_recent now enquiry of
        Inl e \<Rightarrow> count_recent now rest recent_count
      | Inr recent \<Rightarrow>
          count_recent now rest (if recent then recent_count + 1 else recent_count))"

definition process_enquiry_history :: "datetime \<Rightarrow> pyval \<Rightarrow> features result" where
  "process_enquiry_history now enquiry_history =
     (let features = [(''total_recent_enquiries'', PInt 0)] in
      if \<not> truthy enquiry_history then Inr features
      else bind_result (py_iter enquiry_history) (\<lambda>entries.
        Inr (dict_set features ''total_recent_enquiries''
               (PInt (count_recent now entries 0)))))"

text \<open>The local variables of the credit agreement loop.\<close>

record agreements_state =
  total_duration :: pyval
  valid_durations :: int
  max_overdue :: pyval
  personal_loans :: int
  overdrafts :: int
  written_off :: int

definition agreement_step ::
  "(pyval \<Rightarrow> string) \<Rightarrow> agreements_state \<Rightarrow> pyval \<Rightarrow> agreements_state result" where
  "agreement_step str_of st0 account =
     bind_result (py_get account ''indicatordescription'' (PStr [])) (\<lambda>d.
     let desc = py_lower (py_str str_of d);
         st1 = (if str_contains ''personal'' desc
                then st0\<lparr>personal_loans := personal_loans st0 + 1\<rparr> else st0);
         st2 = (if str_contains ''overdraft'' desc
                then st1\<lparr>overdrafts := overdrafts st1 + 1\<rparr> else st1) in
     bind_result (py_get account ''accountstatus'' PNone) (\<lambda>status.
     let st3 = (if status = PStr ''WrittenOff''
                then st2\<lparr>written_off := written_off st2 + 1\<rparr> else st2) in
     bind_result (py_get account ''amountoverdue'' (PInt 0)) (\<lambda>ov.
     let overdue = clean_numeric str_of ov in
     bind_result (num_gt overdue (max_overdue st3)) (\<lambda>more.
     let st4 = (if more then st3\<lparr>max_overdue := overdue\<rparr> else st3) in
     bind_result (py_get account ''loanduration'' (PInt 0)) (\<lambda>du.
     let duration = clean_numeric str_of du in
     bind_result (num_gt duration (PInt 0)) (\<lambda>positive.
     if positive
     then bind_result (num_add (total_duration st4) duration) (\<lambda>td.
            Inr (st4\<lparr>total_duration := td, valid_durations := valid_durations st4 + 1\<rparr>))
     else Inr st4))))))"

fun agreements_loop ::
  "(pyval \<Rightarrow> string) \<Rightarrow> agreements_state \<Rightarrow> pyval list \<Rightarrow> agreements_state result" where
  "agreements_loop str_of st [] = Inr st"
| "agreements_loop str_of st (account # rest) =
     bind_result (agreement_step str_of st account) (\<lambda>st'. agreements_loop str_of st' rest)"

definition process_credit_agreements :: "(pyval \<Rightarrow> string) \<Rightarrow> pyval \<Rightarrow> features result" where
  "process_credit_agreements str_of credit_agreements =
     (let features = [(''personal_loan_count'', PInt 0), (''overdraft_count'', PInt 0),
                      (''max_amount_overdue'', PInt 0), (''avg_loan_duration_days'', PInt 0),
                      (''written_off_accounts'', PInt 0)] in
      if \<not> truthy credit_agreements then Inr features
      else bind_result (py_iter credit_agreements) (\<lambda>accounts.
        bind_result (agreements_loop str_of
            \<lparr>total_duration = PInt 0, valid_durations = 0, max_overdue = PInt 0,
             personal_loans = 0, overdrafts = 0, written_off = 0\<rparr> accounts) (\<lambda>st.
        let features1 = dict_set features ''personal_loan_count'' (PInt (personal_loans st));
            features2 = dict_set features1 ''overdraft_count'' (PInt (overdrafts st));
            features3 = dict_set features2 ''max_amount_overdue'' (max_overdue st);
            features4 = dict_set features3 ''written_off_accounts'' (PInt (written_off st)) in
        if valid_durations st > 0
        then bind_result (num_truediv (total_duration st) (PInt (valid_durations st))) (\<lambda>avg.
               Inr (dict_set features4 ''avg_loan_duration_days'' avg))
        else Inr features4)))"

definition process_delinquency :: "(pyval \<Rightarrow> string) \<Rightarrow> pyval \<Rightarrow> features result" where
  "process_delinquency str_of delinquency_info =
     (let features = [(''max_months_in_arrears'', PInt 0)] in
      if \<not> truthy delinquency_info then Inr features
      else bind_result (py_get delinquency_info ''monthsinarrears'' (PInt 0)) (\<lambda>m.
        Inr (dict_set features ''max_months_in_arrears'' (clean_numeric str_of m))))"

definition process_personal_details :: "datetime \<Rightarrow> pyval \<Rightarrow> features result" where
  "process_personal_details now personal_details =
     bind_result (py_get personal_details ''birthdate'' PNone) (\<lambda>birthdate.
     bind_result (calculate_age now birthdate) (\<lambda>age.
     bind_result (py_get personal_details ''propertyownedtype'' PNone) (\<lambda>owned.
     bind_result (py_get personal_details ''employerdetail'' PNone) (\<lambda>employer.
     Inr [(''age'', (case age of None \<Rightarrow> PNone | Some a \<Rightarrow> PInt a)),
          (''property_owned'', PInt (if truthy owned then 1 else 0)),
          (''employment_status'',
             PStr (if truthy employer then ''Employed'' else ''Unknown''))]))))"

text \<open>The loop over \<open>guarantor_details.items()\<close>, left by \<open>break\<close> at the first
  item that counts.\<close>

fun guarantor_loop :: "features \<Rightarrow> (string \<times> pyval) list \<Rightarrow> features" where
  "guarantor_loop features [] = features"
| "guarantor_loop features ((k, v) # rest) =
     (if k \<noteq> ''guarantordateofbirth''
         \<and> v \<notin> set [PNone, PStr [], PStr ''null'', PStr ''1900-01-01T00:00:00+01:00'']
      then dict_set features ''has_guarantor'' (PInt 1)
      else guarantor_loop features rest)"

definition process_guarantor_info ::
  "(pyval \<Rightarrow> string) \<Rightarrow> pyval \<Rightarrow> pyval \<Rightarrow> features result" where
  "process_guarantor_info str_of guarantor_details guarantor_count =
     bind_result (py_get guarantor_count ''accounts'' (PInt 0)) (\<lambda>accounts.
     let features = [(''guarantor_count'', clean_numeric str_of accounts),
                     (''has_guarantor'', PInt 0)] in
     if truthy guarantor_details
     then bind_result (py_items guarantor_details) (\<lambda>items.
            Inr (guarantor_loop features items))
     else Inr features)"

subsection \<open>Report feature assembler\<close>

definition extract_features ::
  "(pyval \<Rightarrow> string) \<Rightarrow> datetime \<Rightarrow> pyval \<Rightarrow> features result" where
  "extract_features str_of now credit_report =
     bind_result (py_get credit_report ''application_id'' PNone) (\<lambda>application_id.
     let features = [(''application_id'', application_id)] in
     bind_result (if \<not> truthy credit_report then Inr True
                  else bind_result (py_in ''data'' credit_report) (\<lambda>b. Inr (\<not> b))) (\<lambda>stop.
     if stop then Inr features
     else
     bind_result (py_getitem credit_report ''data'') (\<lambda>data.
     bind_result (py_get data ''consumerfullcredit'' (PDict [])) (\<lambda>consumer_data.
     bind_result (py_get consumer_data ''accountrating'' (PDict [])) (\<lambda>s1.
     bind_result (process_account_ratings str_of s1) (\<lambda>f1.
     bind_result (py_get consumer_data ''creditaccountsummary'' (PDict [])) (\<lambda>s2.
     bind_result (process_credit_summary str_of s2) (\<lambda>f2.
     bind_result (py_get consumer_data ''enquiryhistorytop'' (PList [])) (\<lambda>s3.
     bind_result (process_enquiry_history now s3) (\<lambda>f3.
     bind_result (py_get consumer_data ''creditagreementsummary'' (PList [])) (\<lambda>s4.
     bind_result (process_credit_agreements str_of s4) (\<lambda>f4.
     bind_result (py_get consumer_data ''deliquencyinformation'' (PDict [])) (\<lambda>s5.
     bind_result (process_delinquency str_of s5) (\<lambda>f5.
     bind_result (py_get consumer_data ''personaldetailssummary'' (PDict [])) (\<lambda>s6.
     bind_result (process_personal_details now s6) (\<lambda>f6.
     bind_result (py_get consumer_data ''guarantordetails'' (PDict [])) (\<lambda>s7.
     bind_result (py_get consumer_data ''guarantorcount'' (PDict [])) (\<lambda>s8.
     bind_result (process_guarantor_info str_of s7 s8) (\<lambda>f7.
     Inr (dict_update (dict_update (dict_update (dict_update (dict_update (dict_update
            (dict_update features f1) f2) f3) f4) f5) f6) f7))))))))))))))))))))"

subsection \<open>Batch table builder\<close>

text \<open>
  The table of \<open>pandas\<close>, as far as the program uses it. \<open>pd.DataFrame(records)\<close>
  on a list of dicts has one row per dict, in order, and one column per key, in the order
  in which the keys first occur; a dict without a key has a missing cell in that column.
  \<open>set_index(key)\<close> raises \<open>KeyError\<close> when the frame has no such column (so it does
  on the frame of an empty list, which has no column at all); otherwise the column
  becomes the index and leaves the columns. It keeps every row: the default
  \<open>verify_integrity=False\<close> does not look for duplicates in the new index.
\<close>

record dataframe =
  df_index :: "pyval option list"
  df_columns :: "string list"
  df_rows :: "pyval option list list"

definition first_occurrences :: "string list \<Rightarrow> string list" where
  "first_occurrences ks = rev (remdups (rev ks))"

definition pd_DataFrame :: "features list \<Rightarrow> dataframe" where
  "pd_DataFrame records =
     (let cols = first_occurrences (concat (map (map fst) records)) in
      \<lparr>df_index = map (\<lambda>i. Some (PInt (int i))) [0..<length records],
       df_columns = cols,
       df_rows = map (\<lambda>r. map (map_of r) cols) records\<rparr>)"

definition set_index :: "dataframe \<Rightarrow> string \<Rightarrow> dataframe result" where
  "set_index df key =
     (if key \<notin> set (df_columns df) then Inl KeyError
      else
        let pos = length (takeWhile (\<lambda>c. c \<noteq> key) (df_columns df)) in
        Inr \<lparr>df_index = map (\<lambda>row. row ! pos) (df_rows df),
             df_columns = filter (\<lambda>c. c \<noteq> key) (df_columns df),
             df_rows = map (\<lambda>row. take pos row @ drop (Suc pos) row) (df_rows df)\<rparr>)"

text \<open>The loop of \<open>process_reports\<close>: an entry that is no dict or has no key
  \<open>application_id\<close> is passed over; an exception of \<open>extract_features\<close> is not
  caught.\<close>

fun reports_loop ::
  "(pyval \<Rightarrow> string) \<Rightarrow> datetime \<Rightarrow> pyval list \<Rightarrow> features list \<Rightarrow> features list result" where
  "reports_loop str_of now [] features_list = Inr features_list"
| "reports_loop str_of now (report # rest) features_list =
     (if \<not> isinstance_dict report \<or> py_in ''application_id'' report \<noteq> Inr True
      then reports_loop str_of now rest features_list
      else bind_result (extract_features str_of now report) (\<lambda>f.
             reports_loop str_of now rest (features_list @ [f])))"

definition process_reports :: "(pyval \<Rightarrow> string) \<Rightarrow> datetime \<Rightarrow> pyval \<Rightarrow> dataframe result" where
  "process_reports str_of now credit_reports =
     bind_result (py_iter credit_reports) (\<lambda>reports.
     bind_result (reports_loop str_of now reports []) (\<lambda>features_list.
     set_index (pd_DataFrame features_list) ''application_id''))"

subsection \<open>Notions used in the statements\<close>

text \<open>A fixed clock for the examples: 14 June 2024, 09:30.\<close>

definition example_now :: datetime where
  "example_now = \<lparr>dt_year = 2024, dt_month = 6, dt_day = 14, dt_hour = 9, dt_minute = 30,
                   dt_second = 0, dt_microsecond = 0\<rparr>"

text \<open>A report that is record-shaped and carries an \<open>application_id\<close> key, and the
  identifier it carries.\<close>

definition is_record_with_id :: "pyval \<Rightarrow> bool" where
  "is_record_with_id r =
     (case r of PDict kvs \<Rightarrow> dict_has_key kvs ''application_id'' | _ \<Rightarrow> False)"

definition application_id_of :: "pyval \<Rightarrow> pyval" where
  "application_id_of r =
     (case r of
        PDict kvs \<Rightarrow> (case map_of kvs ''application_id'' of None \<Rightarrow> PNone | Some v \<Rightarrow> v)
      | _ \<Rightarrow> PNone)"

text \<open>The timestamp of an enquiry entry: the entry is a mapping whose
  \<open>daterequested\<close> is a string in the format day/month/year hour:minute:second.\<close>

definition parsed_timestamp :: "pyval \<Rightarrow> datetime option" where
  "parsed_timestamp e =
     (case e of
        PDict kvs \<Rightarrow>
          (case map_of kvs ''daterequested'' of
             Some (PStr s) \<Rightarrow> (case strptime_date_time s of Inl err \<Rightarrow> None | Inr d \<Rightarrow> Some d)
           | _ \<Rightarrow> None)
      | _ \<Rightarrow> None)"

text \<open>Following the words of the specification: a timestamp that falls within the last
  90 days of the current moment is not later than now and at most 90 days old.\<close>

definition within_last_90_days :: "datetime \<Rightarrow> datetime \<Rightarrow> bool" where
  "within_last_90_days now d =
     (0 \<le> elapsed_microseconds now d \<and> elapsed_microseconds now d \<le> 90 * 86400 * 1000000)"

definition spec_recent_enquiries :: "datetime \<Rightarrow> pyval list \<Rightarrow> int" where
  "spec_recent_enquiries now es =
     int (length (filter (\<lambda>e. case parsed_timestamp e of
                                None \<Rightarrow> False
                              | Some d \<Rightarrow> within_last_90_days now d) es))"

text \<open>What the program counts: a timestamp less than 91 days before now, which every
  timestamp after now is as well.\<close>

definition less_than_91_days_old :: "datetime \<Rightarrow> pyval \<Rightarrow> bool" where
  "less_than_91_days_old now e =
     (case parsed_timestamp e of
        None \<Rightarrow> False
      | Some d \<Rightarrow> elapsed_microseconds now d < 91 * 86400 * 1000000)"

text \<open>Enquiry entries for the examples: 10 days before \<open>example_now\<close>, 200 days before
  it, and a year after it.\<close>

definition recent_entry :: pyval where
  "recent_entry = PDict [(''daterequested'', PStr ''04/06/2024 09:30:00'')]"

definition old_entry :: pyval where
  "old_entry = PDict [(''daterequested'', PStr ''27/11/2023 09:30:00'')]"

definition future_entry :: pyval where
  "future_entry = PDict [(''daterequested'', PStr ''14/06/2025 09:30:00'')]"

text \<open>Reports for the examples: two without the key \<open>data\<close>, and one whose
  \<open>data\<close> is \<open>null\<close>.\<close>

definition report_a1 :: pyval where
  "report_a1 = PDict [(''application_id'', PStr ''A1'')]"

definition report_b2 :: pyval where
  "report_b2 = PDict [(''application_id'', PStr ''B2'')]"

definition report_null_data :: pyval where
  "report_null_data = PDict [(''application_id'', PStr ''A1''), (''data'', PNone)]"

text \<open>A feature mapping without the key \<open>application_id\<close>.\<close>

definition without_id :: "features \<Rightarrow> bool" where
  "without_id f = (''application_id'' \<notin> fst ` set f)"

section \<open>Properties\<close>

subsection \<open>Evaluation and helper lemmas\<close>

lemmas string_defs =
  py_strip_def is_space_def is_digit_def re_sub_non_numeric_def nat_of_digits_def
  digit_val_def py_float_def py_int_def in_chars_def

lemmas regex_defs =
  re_cls1_def re_cls2_def re_lit_def re_d_def re_m_def re_Y_def re_H_def re_M_def re_S_def
  re_spaces_def re_date_def re_time_def re_date_time_def

lemmas calendar_defs =
  is_leap_def days_in_month_def days_before_year_def days_before_month_def toordinal_def
  mk_datetime_def seconds_of_day_def elapsed_microseconds_def timedelta_days_def

lemma bind_result_simps [simp]:
  "bind_result (Inl e) f = Inl e"
  "bind_result (Inr v) f = f v"
  by (simp_all add: bind_result_def)

lemma set_dropWhile_keeps: "x \<in> set xs \<Longrightarrow> \<not> P x \<Longrightarrow> x \<in> set (dropWhile P xs)"
  by (induction xs) auto

lemma py_strip_keeps: "c \<in> set s \<Longrightarrow> \<not> is_space c \<Longrightarrow> c \<in> set (py_strip s)"
  by (simp add: py_strip_def set_dropWhile_keeps)

lemma digit_not_space: "is_digit c \<Longrightarrow> \<not> is_space c"
  by (auto simp: is_digit_def is_space_def)

lemma digit_in_string_not_sentinel:
  assumes "c \<in> set s" and "is_digit c"
  shows "py_strip s \<notin> set [[], ''-'']"
proof -
  have "c \<in> set (py_strip s)"
    using assms by (simp add: py_strip_keeps digit_not_space)
  moreover have "c \<noteq> CHR ''-''"
    using assms(2) by (auto simp: is_digit_def)
  ultimately show ?thesis by auto
qed

subsection \<open>Numeric normalizer\<close>

lemma clean_numeric_example: "clean_numeric str_of (PStr ''1,234.56'') = PFloat (123456 / 100)"
  by (simp add: clean_numeric_def string_defs)

lemma clean_numeric_numeric: "isinstance_int_float v \<Longrightarrow> clean_numeric str_of v = v"
  by (cases v) (simp_all add: clean_numeric_def)

text \<open>
  Claim C5. \<open>clean_numeric\<close> yields the int 0 on \<open>None\<close>, on a string that is empty,
  \<open>-\<close>, \<open>null\<close> or \<open>None\<close> once its whitespace is trimmed, and on a string whose digits
  and dots do not parse as a float; on every other string it yields the float parsed from
  the digits and dots of the string (\<open>1,234.56\<close> gives 1234.56); a value that is an int
  or a float already is returned as it is. The result is a value in every case: the
  function has no exceptional outcome.
\<close>

theorem clean_numeric_normalizes:
  "clean_numeric str_of PNone = PInt 0
   \<and> (py_strip s1 \<in> set [[], ''-'', ''null'', ''None''] \<longrightarrow>
        clean_numeric str_of (PStr s1) = PInt 0)
   \<and> (py_strip s2 \<notin> set [[], ''-'', ''null'', ''None'']
        \<and> py_float (re_sub_non_numeric s2) = Inl e \<longrightarrow>
        clean_numeric str_of (PStr s2) = PInt 0)
   \<and> (py_strip s3 \<notin> set [[], ''-'', ''null'', ''None'']
        \<and> py_float (re_sub_non_numeric s3) = Inr x \<longrightarrow>
        clean_numeric str_of (PStr s3) = PFloat x)
   \<and> (isinstance_int_float v \<longrightarrow> clean_numeric str_of v = v)
   \<and> clean_numeric str_of (PStr ''1,234.56'') = PFloat (123456 / 100)"
  using clean_numeric_example [of str_of] clean_numeric_numeric [of v str_of]
  by (simp add: clean_numeric_def)

lemma strip_null_example: "py_strip '' null '' = ''null''"
  by (simp add: string_defs)

lemma strip_garbage_example: "py_strip ''n/a'' = ''n/a''"
  by (simp add: string_defs)

lemma float_garbage_example: "py_float (re_sub_non_numeric ''n/a'') = Inl ValueError"
  by (simp add: string_defs)

lemma strip_amount_example: "py_strip ''NGN 2,500.75'' = ''NGN 2,500.75''"
  by (simp add: string_defs)

lemma float_amount_example: "py_float (re_sub_non_numeric ''NGN 2,500.75'') = Inr (250075 / 100)"
  by (simp add: string_defs)

theorem clean_numeric_normalizes_witness:
  "clean_numeric (\<lambda>v. []) PNone = PInt 0
   \<and> clean_numeric (\<lambda>v. []) (PStr '' null '') = PInt 0
   \<and> clean_numeric (\<lambda>v. []) (PStr ''n/a'') = PInt 0
   \<and> clean_numeric (\<lambda>v. []) (PStr ''NGN 2,500.75'') = PFloat (250075 / 100)
   \<and> clean_numeric (\<lambda>v. []) (PInt 7) = PInt 7"
  using clean_numeric_normalizes [of "\<lambda>v. []" "'' null ''" "''n/a''" ValueError
      "''NGN 2,500.75''" "250075 / 100" "PInt 7"]
  by (simp add: strip_null_example strip_garbage_example float_garbage_example
      strip_amount_example float_amount_example)

subsection \<open>Date/age calculator\<close>

lemma re_cls1_digit:
  "(t, r) \<in> set (re_cls1 p s) \<Longrightarrow> (\<And>c. p c \<Longrightarrow> is_digit c) \<Longrightarrow> \<exists>c \<in> set s. is_digit c"
  by (auto simp: re_cls1_def split: list.splits if_splits)

lemma re_cls2_digit:
  "(t, r) \<in> set (re_cls2 p q s) \<Longrightarrow> (\<And>c. q c \<Longrightarrow> is_digit c) \<Longrightarrow> \<exists>c \<in> set s. is_digit c"
  by (auto simp: re_cls2_def split: list.splits if_splits)

lemma in_chars_digit:
  "in_chars ''123456789'' c \<Longrightarrow> is_digit c"
  "in_chars ''01'' c \<Longrightarrow> is_digit c"
  by (auto simp: in_chars_def is_digit_def)

text \<open>Whatever \<open>%d\<close> matches ends in a digit.\<close>

lemma re_d_digit:
  assumes "(t, r) \<in> set (re_d s)"
  shows "\<exists>c \<in> set s. is_digit c"
proof -
  from assms consider
      "(t, r) \<in> set (re_cls2 (in_chars ''3'') (in_chars ''01'') s)"
    | "(t, r) \<in> set (re_cls2 (in_chars ''12'') is_digit s)"
    | "(t, r) \<in> set (re_cls2 (in_chars ''0'') (in_chars ''123456789'') s)"
    | "(t, r) \<in> set (re_cls1 (in_chars ''123456789'') s)"
    | "(t, r) \<in> set (re_cls2 (in_chars '' '') (in_chars ''123456789'') s)"
    unfolding re_d_def by auto
  then show ?thesis
    by cases
      (erule re_cls2_digit re_cls1_digit, erule in_chars_digit
       | erule re_cls2_digit, assumption)+
qed

lemma strptime_date_digit:
  assumes "strptime_date s = Inr b"
  shows "\<exists>c \<in> set s. is_digit c"
proof -
  have "re_date s \<noteq> []"
    using assms by (auto simp: strptime_date_def)
  then have "re_d s \<noteq> []"
    by (auto simp: re_date_def)
  then obtain t r where "(t, r) \<in> set (re_d s)"
    by (cases "re_d s") auto
  then show ?thesis by (rule re_d_digit)
qed

text \<open>A string that parses passes the test for the empty and the \<open>-\<close> birthdate.\<close>

lemma calculate_age_parsed:
  assumes parsed: "strptime_date s = Inr b"
  shows "calculate_age now (PStr s) =
        Inr (Some (dt_year now - dt_year b
                   - (if tuple_less (dt_month now, dt_day now) (dt_month b, dt_day b)
                      then 1 else 0)))"
proof -
  from parsed obtain c where c: "c \<in> set s" "is_digit c"
    using strptime_date_digit by blast
  then have "s \<noteq> []" and "py_strip s \<notin> set [[], ''-'']"
    using digit_in_string_not_sentinel by auto
  then show ?thesis
    using parsed by (simp add: calculate_age_def calculate_age_body_def)
qed

lemma birthdate_example: "strptime_date ''15/06/1990'' =
      Inr \<lparr>dt_year = 1990, dt_month = 6, dt_day = 15, dt_hour = 0, dt_minute = 0,
           dt_second = 0, dt_microsecond = 0\<rparr>"
  by code_simp

text \<open>
  Claim C8. For a birthdate string that parses in the format day/month/year, the age is
  the current year minus the birth year, less one exactly when the current (month, day)
  is before the (month, day) of birth. The birthdate \<open>15/06/1990\<close> gives 33 on
  14 June 2024 and 34 on 16 June 2024, at any time of the day.
\<close>

theorem calculate_age_formula:
  "(strptime_date s = Inr b \<longrightarrow>
      calculate_age now (PStr s) =
        Inr (Some (dt_year now - dt_year b
                   - (if tuple_less (dt_month now, dt_day now) (dt_month b, dt_day b)
                      then 1 else 0))))
   \<and> (dt_year now = 2024 \<and> dt_month now = 6 \<and> dt_day now = 14 \<longrightarrow>
        calculate_age now (PStr ''15/06/1990'') = Inr (Some 33))
   \<and> (dt_year now = 2024 \<and> dt_month now = 6 \<and> dt_day now = 16 \<longrightarrow>
        calculate_age now (PStr ''15/06/1990'') = Inr (Some 34))"
  using calculate_age_parsed [OF birthdate_example, of now] calculate_age_parsed [of s b now]
  by (simp add: tuple_less_def)

theorem calculate_age_formula_witness:
  "calculate_age example_now (PStr ''15/06/1990'') = Inr (Some 33)"
  using calculate_age_formula [of "''15/06/1990''"
      "\<lparr>dt_year = 1990, dt_month = 6, dt_day = 15, dt_hour = 0, dt_minute = 0,
        dt_second = 0, dt_microsecond = 0\<rparr>" example_now]
  by (simp add: birthdate_example tuple_less_def example_now_def)

lemma calculate_age_string_total: "\<exists>r. calculate_age now (PStr s) = Inr r"
  by (simp add: calculate_age_def split: sum.splits)

text \<open>
  Claim C4, as amended. For a birthdate that is a string, \<open>calculate_age\<close> never
  raises, and it returns \<open>None\<close> when the string is empty, is whitespace only, is
  \<open>-\<close> once trimmed, or does not parse in the format day/month/year; it returns
  \<open>None\<close> as well for every falsy value, such as \<open>None\<close> itself.
\<close>

theorem calculate_age_malformed:
  "(\<not> truthy v \<longrightarrow> calculate_age now v = Inr None)
   \<and> (py_strip s1 \<in> set [[], ''-''] \<longrightarrow> calculate_age now (PStr s1) = Inr None)
   \<and> (strptime_date s2 = Inl e \<longrightarrow> calculate_age now (PStr s2) = Inr None)
   \<and> (\<exists>r. calculate_age now (PStr s3) = Inr r)"
  using calculate_age_string_total [of now s3]
  by (simp add: calculate_age_def calculate_age_body_def)

lemma strip_dash_example: "py_strip '' - '' = ''-''"
  by (simp add: string_defs)

lemma bad_date_example: "strptime_date ''31/02/1990'' = Inl ValueError"
  by code_simp

theorem calculate_age_malformed_witness:
  "calculate_age example_now PNone = Inr None
   \<and> calculate_age example_now (PStr '' - '') = Inr None
   \<and> calculate_age example_now (PStr ''31/02/1990'') = Inr None"
  using calculate_age_malformed [of PNone example_now "'' - ''" "''31/02/1990''" ValueError "[]"]
  by (simp add: strip_dash_example bad_date_example)

text \<open>The claim as stated fails on a value that is no string and not falsy: the call of
  \<open>strip\<close> is outside the \<open>try\<close> block, and an int has no such method.\<close>

theorem calculate_age_non_string_counterexample:
  "calculate_age example_now (PInt 19900615) = Inl AttributeError"
  by (simp add: calculate_age_def)

subsection \<open>Enquiry history\<close>

lemma days_le_90_iff:
  "timedelta_days a b \<le> 90 \<longleftrightarrow> elapsed_microseconds a b < 91 * 86400 * 1000000"
proof -
  have "x div 86400000000 \<le> 90 \<longleftrightarrow> x < 7862400000000" for x :: int
    by linarith
  then show ?thesis by (simp add: timedelta_days_def)
qed

lemma enquiry_is_recent_counted:
  "(case enquiry_is_recent now e of Inl err \<Rightarrow> False | Inr recent \<Rightarrow> recent)
     = less_than_91_days_old now e"
proof (cases e)
  case (PDict kvs)
  show ?thesis
  proof (cases "map_of kvs ''daterequested''")
    case None
    with PDict show ?thesis
      by (simp add: enquiry_is_recent_def less_than_91_days_old_def parsed_timestamp_def)
  next
    case (Some v)
    with PDict show ?thesis
      by (cases v)
        (simp_all add: enquiry_is_recent_def less_than_91_days_old_def parsed_timestamp_def
           days_le_90_iff split: sum.splits)
  qed
qed (simp_all add: enquiry_is_recent_def less_than_91_days_old_def parsed_timestamp_def)

lemma count_recent_step:
  "count_recent now (e # es) n =
     count_recent now es (if less_than_91_days_old now e then n + 1 else n)"
  using enquiry_is_recent_counted [of now e]
  by (simp split: sum.splits)

lemma count_recent_filter:
  "count_recent now es n = n + int (length (filter (less_than_91_days_old now) es))"
proof (induction es arbitrary: n)
  case Nil
  show ?case by simp
next
  case (Cons e es)
  show ?case
    unfolding count_recent_step Cons.IH by simp
qed

lemma process_enquiry_history_list:
  "process_enquiry_history now (PList es) =
     Inr [(''total_recent_enquiries'', PInt (count_recent now es 0))]"
  by (cases es) (simp_all add: process_enquiry_history_def del: count_recent.simps(2))


text \<open>
  Claim C6, as amended. For every list of enquiry entries, \<open>total_recent_enquiries\<close> is
  the number of entries that are mappings whose \<open>daterequested\<close> is a string in the
  format day/month/year hour:minute:second and whose timestamp is less than 91 days
  before now (the whole days elapsed are at most 90), a timestamp after now included.
  Every other entry is passed over, and the count of the rest goes on. A list of one entry
  dated 10 days before now and one dated 200 days before now gives 1.
\<close>

theorem recent_enquiries_count:
  "process_enquiry_history now (PList es) =
     Inr [(''total_recent_enquiries'',
           PInt (int (length (filter (less_than_91_days_old now) es))))]
   \<and> (parsed_timestamp e1 = Some d1 \<and> elapsed_microseconds now d1 = 10 * 86400 * 1000000
        \<and> parsed_timestamp e2 = Some d2 \<and> elapsed_microseconds now d2 = 200 * 86400 * 1000000
        \<longrightarrow> process_enquiry_history now (PList [e1, e2]) =
              Inr [(''total_recent_enquiries'', PInt 1)])"
  by (simp add: process_enquiry_history_list count_recent_filter less_than_91_days_old_def
      del: count_recent.simps)

lemma recent_entry_parsed:
  "parsed_timestamp recent_entry =
     Some \<lparr>dt_year = 2024, dt_month = 6, dt_day = 4, dt_hour = 9, dt_minute = 30,
            dt_second = 0, dt_microsecond = 0\<rparr>"
  by code_simp

lemma recent_entry_elapsed:
  "elapsed_microseconds example_now
     \<lparr>dt_year = 2024, dt_month = 6, dt_day = 4, dt_hour = 9, dt_minute = 30,
      dt_second = 0, dt_microsecond = 0\<rparr> = 10 * 86400 * 1000000"
  by code_simp

lemma old_entry_parsed:
  "parsed_timestamp old_entry =
     Some \<lparr>dt_year = 2023, dt_month = 11, dt_day = 27, dt_hour = 9, dt_minute = 30,
            dt_second = 0, dt_microsecond = 0\<rparr>"
  by code_simp

lemma old_entry_elapsed:
  "elapsed_microseconds example_now
     \<lparr>dt_year = 2023, dt_month = 11, dt_day = 27, dt_hour = 9, dt_minute = 30,
      dt_second = 0, dt_microsecond = 0\<rparr> = 200 * 86400 * 1000000"
  by code_simp

theorem recent_enquiries_count_witness:
  "process_enquiry_history example_now (PList [recent_entry, old_entry]) =
     Inr [(''total_recent_enquiries'', PInt 1)]"
  using recent_enquiries_count [of example_now "[]" recent_entry
      "\<lparr>dt_year = 2024, dt_month = 6, dt_day = 4, dt_hour = 9, dt_minute = 30,
        dt_second = 0, dt_microsecond = 0\<rparr>" old_entry
      "\<lparr>dt_year = 2023, dt_month = 11, dt_day = 27, dt_hour = 9, dt_minute = 30,
        dt_second = 0, dt_microsecond = 0\<rparr>"]
  by (simp add: recent_entry_parsed recent_entry_elapsed old_entry_parsed old_entry_elapsed)

text \<open>The claim as stated fails on an entry dated after now: the program counts it,
  and it is not within the last 90 days.\<close>

theorem future_enquiry_counterexample:
  "process_enquiry_history example_now (PList [future_entry]) =
     Inr [(''total_recent_enquiries'', PInt 1)]
   \<and> spec_recent_enquiries example_now [future_entry] = 0"
  by code_simp

text \<open>
  Claim C10. An entry whose parsed timestamp is after now is counted: adding it anywhere
  in a list raises \<open>total_recent_enquiries\<close> by one.
\<close>

theorem future_enquiry_counted:
  "parsed_timestamp e = Some d \<and> elapsed_microseconds now d < 0 \<longrightarrow>
     (\<exists>n. process_enquiry_history now (PList (xs @ ys)) =
             Inr [(''total_recent_enquiries'', PInt n)]
        \<and> process_enquiry_history now (PList (xs @ e # ys)) =
             Inr [(''total_recent_enquiries'', PInt (n + 1))])"
  by (simp add: process_enquiry_history_list count_recent_filter less_than_91_days_old_def
      del: count_recent.simps)

lemma future_entry_parsed:
  "parsed_timestamp future_entry =
     Some \<lparr>dt_year = 2025, dt_month = 6, dt_day = 14, dt_hour = 9, dt_minute = 30,
            dt_second = 0, dt_microsecond = 0\<rparr>"
  by code_simp

lemma future_entry_elapsed:
  "elapsed_microseconds example_now
     \<lparr>dt_year = 2025, dt_month = 6, dt_day = 14, dt_hour = 9, dt_minute = 30,
      dt_second = 0, dt_microsecond = 0\<rparr> = - (365 * 86400 * 1000000)"
  by code_simp

theorem future_enquiry_counted_witness:
  "\<exists>n. process_enquiry_history example_now (PList [recent_entry]) =
          Inr [(''total_recent_enquiries'', PInt n)]
      \<and> process_enquiry_history example_now (PList [recent_entry, future_entry]) =
          Inr [(''total_recent_enquiries'', PInt (n + 1))]"
  using future_enquiry_counted [of future_entry
      "\<lparr>dt_year = 2025, dt_month = 6, dt_day = 14, dt_hour = 9, dt_minute = 30,
        dt_second = 0, dt_microsecond = 0\<rparr>" example_now "[recent_entry]" "[]"]
  by (simp add: future_entry_parsed future_entry_elapsed)

subsection \<open>Section extractors\<close>

lemma clean_numeric_zero: "clean_numeric str_of (PInt 0) = PInt 0"
  by (simp add: clean_numeric_def)

lemma sum_fields_empty_dict:
  "sum_fields str_of (PDict []) fs (PInt 0) = Inr (PInt 0)"
  by (induction fs) (simp_all add: clean_numeric_zero num_add_def)

lemma account_ratings_missing:
  "process_account_ratings str_of (PDict []) =
     Inr [(''no_of_bad_accounts'', PInt 0), (''no_of_good_accounts'', PInt 0)]"
  by (simp add: process_account_ratings_def sum_fields_empty_dict)

lemma credit_summary_missing:
  "process_credit_summary str_of (PDict []) =
     Inr [(''total_outstanding_debt'', PInt 0), (''total_arrears'', PInt 0),
          (''total_monthly_instalment'', PInt 0), (''total_number_of_judgements'', PInt 0)]"
  by (simp add: process_credit_summary_def clean_numeric_zero)

lemma personal_details_missing:
  "process_personal_details now (PDict []) =
     Inr [(''age'', PNone), (''property_owned'', PInt 0),
          (''employment_status'', PStr ''Unknown'')]"
  by (simp add: process_personal_details_def calculate_age_def)

lemma guarantor_info_falsy:
  "\<not> truthy v \<Longrightarrow> process_guarantor_info str_of v (PDict []) =
     Inr [(''guarantor_count'', PInt 0), (''has_guarantor'', PInt 0)]"
  by (simp add: process_guarantor_info_def clean_numeric_zero)

lemma parsed_timestamp_string_items:
  "filter (less_than_91_days_old now) (map (\<lambda>c. PStr [c]) s) = []"
  by (induction s) (simp_all add: less_than_91_days_old_def parsed_timestamp_def)

lemma parsed_timestamp_dict_keys:
  "filter (less_than_91_days_old now) (map (\<lambda>kv. PStr (fst kv)) kvs) = []"
  by (induction kvs) (simp_all add: less_than_91_days_old_def parsed_timestamp_def)


lemma enquiry_history_string:
  "process_enquiry_history now (PStr s) = Inr [(''total_recent_enquiries'', PInt 0)]"
  by (simp add: process_enquiry_history_def Let_def count_recent_filter parsed_timestamp_string_items)

lemma enquiry_history_dict:
  "process_enquiry_history now (PDict kvs) = Inr [(''total_recent_enquiries'', PInt 0)]"
  by (simp add: process_enquiry_history_def Let_def count_recent_filter parsed_timestamp_dict_keys)

text \<open>
  Claim C1, as amended. When its sub-section is missing, so that the assembler passes the
  empty mapping (the empty list for enquiry history and credit agreements), every section
  extractor raises no exception and returns its full mapping of defaults. The extractors
  of enquiry history, credit agreements and delinquency, and the guarantor extractor in
  its details argument, do so on every falsy value (\<open>None\<close>, \<open>0\<close>, the empty
  string, list and mapping); the enquiry history extractor also on every string and
  every mapping.
\<close>

theorem extractors_default_when_missing:
  "process_account_ratings str_of (PDict []) =
     Inr [(''no_of_bad_accounts'', PInt 0), (''no_of_good_accounts'', PInt 0)]
   \<and> process_credit_summary str_of (PDict []) =
     Inr [(''total_outstanding_debt'', PInt 0), (''total_arrears'', PInt 0),
          (''total_monthly_instalment'', PInt 0), (''total_number_of_judgements'', PInt 0)]
   \<and> (\<not> truthy v1 \<or> isinstance_str v1 \<or> isinstance_dict v1 \<longrightarrow>
        process_enquiry_history now v1 = Inr [(''total_recent_enquiries'', PInt 0)])
   \<and> (\<not> truthy v2 \<longrightarrow>
        process_credit_agreements str_of v2 =
          Inr [(''personal_loan_count'', PInt 0), (''overdraft_count'', PInt 0),
               (''max_amount_overdue'', PInt 0), (''avg_loan_duration_days'', PInt 0),
               (''written_off_accounts'', PInt 0)])
   \<and> (\<not> truthy v3 \<longrightarrow>
        process_delinquency str_of v3 = Inr [(''max_months_in_arrears'', PInt 0)])
   \<and> process_personal_details now (PDict []) =
     Inr [(''age'', PNone), (''property_owned'', PInt 0),
          (''employment_status'', PStr ''Unknown'')]
   \<and> (\<not> truthy v4 \<longrightarrow>
        process_guarantor_info str_of v4 (PDict []) =
          Inr [(''guarantor_count'', PInt 0), (''has_guarantor'', PInt 0)])"
proof -
  have enquiry: "process_enquiry_history now v1 = Inr [(''total_recent_enquiries'', PInt 0)]"
    if "\<not> truthy v1 \<or> isinstance_str v1 \<or> isinstance_dict v1"
  proof (cases "truthy v1")
    case False
    then show ?thesis by (simp add: process_enquiry_history_def)
  next
    case True
    with that show ?thesis
      by (cases v1) (simp_all add: enquiry_history_string enquiry_history_dict)
  qed
  have agreements: "process_credit_agreements str_of v2 =
          Inr [(''personal_loan_count'', PInt 0), (''overdraft_count'', PInt 0),
               (''max_amount_overdue'', PInt 0), (''avg_loan_duration_days'', PInt 0),
               (''written_off_accounts'', PInt 0)]" if "\<not> truthy v2"
    using that by (simp add: process_credit_agreements_def)
  have delinquency: "process_delinquency str_of v3 = Inr [(''max_months_in_arrears'', PInt 0)]"
    if "\<not> truthy v3"
    using that by (simp add: process_delinquency_def)
  show ?thesis
    using enquiry agreements delinquency guarantor_info_falsy [of v4 str_of]
    by (simp only: account_ratings_missing credit_summary_missing personal_details_missing)
       blast
qed

theorem extractors_default_when_missing_witness:
  "process_enquiry_history example_now PNone = Inr [(''total_recent_enquiries'', PInt 0)]
   \<and> process_credit_agreements (\<lambda>v. []) (PList []) =
          Inr [(''personal_loan_count'', PInt 0), (''overdraft_count'', PInt 0),
               (''max_amount_overdue'', PInt 0), (''avg_loan_duration_days'', PInt 0),
               (''written_off_accounts'', PInt 0)]
   \<and> process_delinquency (\<lambda>v. []) (PDict []) = Inr [(''max_months_in_arrears'', PInt 0)]
   \<and> process_guarantor_info (\<lambda>v. []) (PDict []) (PDict []) =
          Inr [(''guarantor_count'', PInt 0), (''has_guarantor'', PInt 0)]"
  using extractors_default_when_missing [of "\<lambda>v. []" PNone example_now "PList []" "PDict []" "PDict []"]
  by simp

text \<open>The claim as stated fails on a string where a mapping is expected: a string has
  no method \<open>get\<close>, and nothing in \<open>process_account_ratings\<close> tests the shape.\<close>

theorem account_ratings_string_counterexample:
  "process_account_ratings (\<lambda>v. []) (PStr ''abc'') = Inl AttributeError"
  by (simp add: process_account_ratings_def bad_account_fields_def)

subsection \<open>Report feature assembler\<close>

text \<open>
  Claim C3. On the report \<open>None\<close> the assembler raises \<open>AttributeError\<close>: the
  identifier is read with \<open>credit_report.get\<close> before the test \<open>not credit_report\<close>
  is reached. The claim asks for a record holding only \<open>application_id\<close> there.
\<close>

theorem extract_features_none_raises:
  "extract_features str_of now PNone = Inl AttributeError"
  by (simp add: extract_features_def)

theorem extract_features_none_raises_witness:
  "extract_features (\<lambda>v. []) example_now PNone = Inl AttributeError"
  using extract_features_none_raises [of "\<lambda>v. []" example_now] by simp

text \<open>On a mapping without the key \<open>data\<close>, the empty mapping included, the record
  holds the identifier alone.\<close>

lemma extract_features_without_data:
  "\<not> dict_has_key kvs ''data'' \<Longrightarrow>
     extract_features str_of now (PDict kvs) =
       Inr [(''application_id'', application_id_of (PDict kvs))]"
  by (simp add: extract_features_def application_id_of_def)

lemma extract_features_a1:
  "extract_features str_of now (PDict [(''application_id'', PStr ''A1'')]) =
       Inr [(''application_id'', PStr ''A1'')]"
  by (simp add: extract_features_without_data dict_has_key_def application_id_of_def)

subsection \<open>Batch table builder\<close>

text \<open>The outputs of the extractors have no key \<open>application_id\<close>, so the assembled
  record keeps the identifier it started with.\<close>

lemma bind_result_Inr: "bind_result r g = Inr y \<longleftrightarrow> (\<exists>v. r = Inr v \<and> g v = Inr y)"
  by (cases r) simp_all

lemma keys_dict_set: "fst ` set (dict_set d k v) = insert k (fst ` set d)"
  by (induction d k v rule: dict_set.induct) auto

lemma map_of_dict_set:
  "map_of (dict_set d k v) k' = (if k' = k then Some v else map_of d k')"
  by (induction d k v rule: dict_set.induct) auto

lemma map_of_dict_update_other:
  "k \<notin> fst ` set e \<Longrightarrow> map_of (dict_update d e) k = map_of d k"
  unfolding dict_update_def
  by (induction e arbitrary: d) (auto simp: map_of_dict_set)

lemma without_id_simps [simp]:
  "without_id []"
  "without_id ((k, v) # f) = (k \<noteq> ''application_id'' \<and> without_id f)"
  "without_id (dict_set f k v) = (k \<noteq> ''application_id'' \<and> without_id f)"
  by (auto simp: without_id_def keys_dict_set)

lemma account_ratings_without_id:
  "process_account_ratings str_of v = Inr f \<Longrightarrow> without_id f"
  by (auto simp: process_account_ratings_def bind_result_Inr)

lemma credit_summary_without_id:
  "process_credit_summary str_of v = Inr f \<Longrightarrow> without_id f"
  by (auto simp: process_credit_summary_def bind_result_Inr)

lemma enquiry_history_without_id:
  "process_enquiry_history now v = Inr f \<Longrightarrow> without_id f"
  by (auto simp: process_enquiry_history_def Let_def bind_result_Inr split: if_splits)

lemma credit_agreements_without_id:
  "process_credit_agreements str_of v = Inr f \<Longrightarrow> without_id f"
  by (auto simp: process_credit_agreements_def Let_def bind_result_Inr split: if_splits)

lemma delinquency_without_id:
  "process_delinquency str_of v = Inr f \<Longrightarrow> without_id f"
  by (auto simp: process_delinquency_def Let_def bind_result_Inr split: if_splits)

lemma personal_details_without_id:
  "process_personal_details now v = Inr f \<Longrightarrow> without_id f"
  by (auto simp: process_personal_details_def bind_result_Inr)

lemma guarantor_loop_without_id:
  "without_id f \<Longrightarrow> without_id (guarantor_loop f items)"
  by (induction f items rule: guarantor_loop.induct) auto

lemma guarantor_info_without_id:
  "process_guarantor_info str_of v w = Inr f \<Longrightarrow> without_id f"
  by (auto simp: process_guarantor_info_def Let_def bind_result_Inr guarantor_loop_without_id
      split: if_splits)


lemma map_of_dict_update_without_id:
  "without_id e \<Longrightarrow> map_of (dict_update d e) ''application_id'' = map_of d ''application_id''"
  by (simp add: without_id_def map_of_dict_update_other)

lemma extract_features_id:
  assumes "extract_features str_of now (PDict kvs) = Inr f"
  shows "map_of f ''application_id'' = Some (application_id_of (PDict kvs))"
proof -
  consider "kvs = []" | "kvs \<noteq> []" "\<not> dict_has_key kvs ''data''"
    | "kvs \<noteq> []" "dict_has_key kvs ''data''"
    by blast
  then show ?thesis
  proof cases
    case 1
    with assms show ?thesis
      by (auto simp: extract_features_def Let_def application_id_of_def)
  next
    case 2
    with assms show ?thesis
      by (auto simp: extract_features_def Let_def application_id_of_def)
  next
    case 3
    with assms obtain f1 f2 f3 f4 f5 f6 f7 s1 s2 s3 s4 s5 s6 s7 s8 where
      parts: "process_account_ratings str_of s1 = Inr f1"
        "process_credit_summary str_of s2 = Inr f2"
        "process_enquiry_history now s3 = Inr f3"
        "process_credit_agreements str_of s4 = Inr f4"
        "process_delinquency str_of s5 = Inr f5"
        "process_personal_details now s6 = Inr f6"
        "process_guarantor_info str_of s7 s8 = Inr f7"
      and f: "f = dict_update (dict_update (dict_update (dict_update (dict_update (dict_update
              (dict_update [(''application_id'', application_id_of (PDict kvs))] f1)
                 f2) f3) f4) f5) f6) f7"
      by (auto simp: extract_features_def Let_def application_id_of_def bind_result_Inr)
    show ?thesis
      unfolding f
      using parts
      by (simp add: map_of_dict_update_without_id account_ratings_without_id
          credit_summary_without_id enquiry_history_without_id credit_agreements_without_id
          delinquency_without_id personal_details_without_id guarantor_info_without_id)
  qed
qed

text \<open>The loop keeps the records of the reports that are mappings with an
  \<open>application_id\<close> key, in their order.\<close>

lemma skip_condition:
  "(\<not> isinstance_dict r \<or> py_in ''application_id'' r \<noteq> Inr True) \<longleftrightarrow> \<not> is_record_with_id r"
  by (cases r) (simp_all add: is_record_with_id_def)

lemma reports_loop_step:
  "reports_loop str_of now (r # rs) acc =
     (if \<not> is_record_with_id r then reports_loop str_of now rs acc
      else bind_result (extract_features str_of now r) (\<lambda>f.
             reports_loop str_of now rs (acc @ [f])))"
  using skip_condition [of r] by simp

lemma is_record_with_id_dict: "is_record_with_id r \<Longrightarrow> \<exists>kvs. r = PDict kvs"
  by (cases r) (simp_all add: is_record_with_id_def)

lemma reports_loop_no_survivor:
  "filter is_record_with_id rs = [] \<Longrightarrow> reports_loop str_of now rs acc = Inr acc"
  by (induction rs) (simp_all add: reports_loop_step del: reports_loop.simps(2) split: if_splits)

lemma reports_loop_ids:
  "reports_loop str_of now rs acc = Inr fl \<Longrightarrow>
     map (\<lambda>f. map_of f ''application_id'') fl =
       map (\<lambda>f. map_of f ''application_id'') acc
       @ map (\<lambda>r. Some (application_id_of r)) (filter is_record_with_id rs)"
proof (induction rs arbitrary: acc)
  case Nil
  then show ?case by simp
next
  case (Cons r rs)
  show ?case
  proof (cases "is_record_with_id r")
    case False
    with Cons show ?thesis
      by (simp add: reports_loop_step del: reports_loop.simps(2))
  next
    case True
    then obtain kvs where r: "r = PDict kvs"
      using is_record_with_id_dict by blast
    from Cons.prems True obtain f where
      f: "extract_features str_of now r = Inr f"
      and rest: "reports_loop str_of now rs (acc @ [f]) = Inr fl"
      by (auto simp: reports_loop_step bind_result_Inr simp del: reports_loop.simps(2))
    have "map_of f ''application_id'' = Some (application_id_of r)"
      using f unfolding r by (rule extract_features_id)
    with Cons.IH [OF rest] True show ?thesis by simp
  qed
qed

lemma reports_loop_total:
  "(\<forall>r \<in> set (filter is_record_with_id rs). \<exists>f. extract_features str_of now r = Inr f) \<Longrightarrow>
     \<exists>fl. reports_loop str_of now rs acc = Inr fl"
proof (induction rs arbitrary: acc)
  case Nil
  show ?case by simp
next
  case (Cons r rs)
  then show ?case
    by (cases "is_record_with_id r")
       (auto simp: reports_loop_step simp del: reports_loop.simps(2))
qed

text \<open>The table: \<open>set_index\<close> keeps the rows and reads the index off the column.\<close>

lemma set_first_occurrences: "set (first_occurrences ks) = set ks"
  by (simp add: first_occurrences_def)

lemma nth_key_position:
  "k \<in> set cols \<Longrightarrow> length (takeWhile (\<lambda>c. c \<noteq> k) cols) < length cols
     \<and> cols ! length (takeWhile (\<lambda>c. c \<noteq> k) cols) = k"
  by (induction cols) auto

lemma set_index_empty: "set_index (pd_DataFrame []) k = Inl KeyError"
  by (simp add: set_index_def pd_DataFrame_def first_occurrences_def)

lemma set_index_rows:
  assumes "set_index (pd_DataFrame records) k = Inr df"
  shows "length (df_rows df) = length records"
    and "df_index df = map (\<lambda>r. map_of r k) records"
proof -
  let ?cols = "first_occurrences (concat (map (map fst) records))"
  let ?pos = "length (takeWhile (\<lambda>c. c \<noteq> k) ?cols)"
  from assms have k: "k \<in> set ?cols"
    by (auto simp: set_index_def pd_DataFrame_def Let_def split: if_splits)
  with assms have df: "df = \<lparr>df_index = map (\<lambda>row. row ! ?pos) (map (\<lambda>r. map (map_of r) ?cols) records),
             df_columns = filter (\<lambda>c. c \<noteq> k) ?cols,
             df_rows = map (\<lambda>row. take ?pos row @ drop (Suc ?pos) row) (map (\<lambda>r. map (map_of r) ?cols) records)\<rparr>"
    by (auto simp: set_index_def pd_DataFrame_def Let_def)
  show "length (df_rows df) = length records"
    by (simp add: df)
  show "df_index df = map (\<lambda>r. map_of r k) records"
    using nth_key_position [OF k] by (simp add: df)
qed

lemma set_index_total:
  assumes "records \<noteq> []" and "\<forall>r \<in> set records. map_of r k \<noteq> None"
  shows "\<exists>df. set_index (pd_DataFrame records) k = Inr df"
proof -
  from assms obtain r where r: "r \<in> set records" "map_of r k \<noteq> None"
    by (cases records) auto
  then have "k \<in> fst ` set r"
    by (auto simp: map_of_eq_None_iff)
  with r(1) have "k \<in> set (first_occurrences (concat (map (map fst) records)))"
    by (auto simp: set_first_occurrences)
  then show ?thesis
    by (simp add: set_index_def pd_DataFrame_def Let_def)
qed

lemma process_reports_list:
  "process_reports str_of now (PList rs) =
     bind_result (reports_loop str_of now rs []) (\<lambda>features_list.
       set_index (pd_DataFrame features_list) ''application_id'')"
  by (simp add: process_reports_def)

lemma process_reports_parts:
  assumes "process_reports str_of now (PList rs) = Inr df"
  shows "length (df_rows df) = length (filter is_record_with_id rs)"
    and "df_index df = map (\<lambda>r. Some (application_id_of r)) (filter is_record_with_id rs)"
proof -
  from assms obtain fl where
    loop: "reports_loop str_of now rs [] = Inr fl"
    and df: "set_index (pd_DataFrame fl) ''application_id'' = Inr df"
    by (auto simp: process_reports_list bind_result_Inr)
  have ids: "map (\<lambda>f. map_of f ''application_id'') fl =
      map (\<lambda>r. Some (application_id_of r)) (filter is_record_with_id rs)"
    using reports_loop_ids [OF loop] by simp
  then have "length fl = length (filter is_record_with_id rs)"
    using length_map by metis
  then show "length (df_rows df) = length (filter is_record_with_id rs)"
    using set_index_rows(1) [OF df] by simp
  show "df_index df = map (\<lambda>r. Some (application_id_of r)) (filter is_record_with_id rs)"
    using set_index_rows(2) [OF df] ids by simp
qed

lemma process_reports_returns:
  assumes "filter is_record_with_id rs \<noteq> []"
    and "\<forall>r \<in> set (filter is_record_with_id rs). \<exists>f. extract_features str_of now r = Inr f"
  shows "\<exists>df. process_reports str_of now (PList rs) = Inr df"
proof -
  from assms(2) obtain fl where loop: "reports_loop str_of now rs [] = Inr fl"
    using reports_loop_total by blast
  have ids: "map (\<lambda>f. map_of f ''application_id'') fl =
      map (\<lambda>r. Some (application_id_of r)) (filter is_record_with_id rs)"
    using reports_loop_ids [OF loop] by simp
  then have "length fl = length (filter is_record_with_id rs)"
    using length_map by metis
  with assms(1) have "fl \<noteq> []" by auto
  moreover have "\<forall>f \<in> set fl. map_of f ''application_id'' \<noteq> None"
  proof
    fix f assume "f \<in> set fl"
    then have "map_of f ''application_id'' \<in> set (map (\<lambda>f. map_of f ''application_id'') fl)"
      by simp
    then show "map_of f ''application_id'' \<noteq> None"
      unfolding ids by auto
  qed
  ultimately obtain df where "set_index (pd_DataFrame fl) ''application_id'' = Inr df"
    using set_index_total by blast
  then show ?thesis
    by (simp add: process_reports_list loop)
qed

text \<open>
  Claim C9. When no entry of the batch is a mapping with an \<open>application_id\<close> key, the
  empty batch included, \<open>process_reports\<close> raises \<open>KeyError\<close>: the frame of an empty
  list has no column to index by.
\<close>

theorem process_reports_no_survivor:
  "filter is_record_with_id rs = [] \<longrightarrow> process_reports str_of now (PList rs) = Inl KeyError"
  by (simp add: process_reports_list reports_loop_no_survivor set_index_empty)

theorem process_reports_no_survivor_witness:
  "process_reports (\<lambda>v. []) example_now (PList []) = Inl KeyError
   \<and> process_reports (\<lambda>v. []) example_now (PList [PStr ''report'', PInt 3, PDict []]) = Inl KeyError"
  using process_reports_no_survivor [of "[]" "\<lambda>v. []" example_now]
    process_reports_no_survivor [of "[PStr ''report'', PInt 3, PDict []]" "\<lambda>v. []" example_now]
  by (simp add: is_record_with_id_def dict_has_key_def)

text \<open>
  Claim C7, as amended. Whenever \<open>process_reports\<close> returns a table, the table has
  exactly one row per entry of the batch that is a mapping with an \<open>application_id\<close>
  key, and none for any other entry. It returns a table whenever at least one entry is
  such a mapping and the assembler raises on none of them. For three reports of which
  one is a plain string and two are such mappings, the table has exactly 2 rows.
\<close>

theorem process_reports_rows:
  "(process_reports str_of now (PList rs) = Inr df \<longrightarrow>
      length (df_rows df) = length (filter is_record_with_id rs)
      \<and> length (df_index df) = length (filter is_record_with_id rs))
   \<and> (filter is_record_with_id rs \<noteq> []
        \<and> (\<forall>r \<in> set (filter is_record_with_id rs). \<exists>f. extract_features str_of now r = Inr f)
       \<longrightarrow> (\<exists>t. process_reports str_of now (PList rs) = Inr t))
   \<and> (is_record_with_id r1 \<and> is_record_with_id r2
        \<and> (\<exists>f. extract_features str_of now r1 = Inr f)
        \<and> (\<exists>f. extract_features str_of now r2 = Inr f)
       \<longrightarrow> (\<exists>t. process_reports str_of now (PList [r1, PStr x, r2]) = Inr t
                \<and> length (df_rows t) = 2))"
proof (intro conjI impI)
  assume "process_reports str_of now (PList rs) = Inr df"
  then show "length (df_rows df) = length (filter is_record_with_id rs)"
    and "length (df_index df) = length (filter is_record_with_id rs)"
    by (simp_all add: process_reports_parts)
next
  assume "filter is_record_with_id rs \<noteq> []
        \<and> (\<forall>r \<in> set (filter is_record_with_id rs). \<exists>f. extract_features str_of now r = Inr f)"
  then show "\<exists>t. process_reports str_of now (PList rs) = Inr t"
    using process_reports_returns by blast
next
  assume a: "is_record_with_id r1 \<and> is_record_with_id r2
        \<and> (\<exists>f. extract_features str_of now r1 = Inr f)
        \<and> (\<exists>f. extract_features str_of now r2 = Inr f)"
  then have survivors: "filter is_record_with_id [r1, PStr x, r2] = [r1, r2]"
    by (simp add: is_record_with_id_def)
  with a obtain t where t: "process_reports str_of now (PList [r1, PStr x, r2]) = Inr t"
    using process_reports_returns [of "[r1, PStr x, r2]" str_of now] by auto
  then have "length (df_rows t) = 2"
    using process_reports_parts(1) [OF t] survivors by simp
  with t show "\<exists>t. process_reports str_of now (PList [r1, PStr x, r2]) = Inr t
                \<and> length (df_rows t) = 2"
    by blast
qed

lemma report_a1_features: "extract_features str_of now report_a1 = Inr [(''application_id'', PStr ''A1'')]"
  by (simp add: report_a1_def extract_features_def dict_has_key_def)

lemma report_b2_features: "extract_features str_of now report_b2 = Inr [(''application_id'', PStr ''B2'')]"
  by (simp add: report_b2_def extract_features_def dict_has_key_def)

lemma example_reports_survive: "is_record_with_id report_a1" "is_record_with_id report_b2"
  "is_record_with_id report_null_data"
  by (simp_all add: report_a1_def report_b2_def report_null_data_def is_record_with_id_def dict_has_key_def)

lemma mixed_batch_table:
  "process_reports (\<lambda>v. []) example_now
     (PList [report_a1, PStr ''not a report'', report_b2]) =
     Inr \<lparr>df_index = [Some (PStr ''A1''), Some (PStr ''B2'')],
          df_columns = [], df_rows = [[], []]\<rparr>"
  by code_simp

lemma mixed_batch_survivors:
  "filter is_record_with_id [report_a1, PStr ''not a report'', report_b2] =
     [report_a1, report_b2]"
proof -
  have "\<not> is_record_with_id (PStr ''not a report'')"
    by (simp add: is_record_with_id_def)
  then show ?thesis
    by (simp add: example_reports_survive)
qed

theorem process_reports_rows_witness:
  "length (df_rows \<lparr>df_index = [Some (PStr ''A1''), Some (PStr ''B2'')],
                    df_columns = [], df_rows = [[], []]\<rparr>) =
     length (filter is_record_with_id [report_a1, PStr ''not a report'', report_b2])
   \<and> (\<exists>t. process_reports (\<lambda>v. []) example_now
              (PList [report_a1, PStr ''not a report'', report_b2]) = Inr t
          \<and> length (df_rows t) = 2)"
  using process_reports_rows [of "\<lambda>v. []" example_now
      "[report_a1, PStr ''not a report'', report_b2]"
      "\<lparr>df_index = [Some (PStr ''A1''), Some (PStr ''B2'')], df_columns = [], df_rows = [[], []]\<rparr>"
      report_a1 report_b2 "''not a report''"]
  by (simp add: mixed_batch_table mixed_batch_survivors example_reports_survive
      report_a1_features report_b2_features)

text \<open>The claim as stated fails on a batch whose only report is a mapping with an
  identifier and a \<open>data\<close> that is \<open>null\<close>: the assembler raises, and the report gets
  no row.\<close>

lemma null_data_report_raises:
  "process_reports (\<lambda>v. []) example_now (PList [report_null_data]) = Inl AttributeError"
  by code_simp

theorem null_data_report_counterexample:
  "is_record_with_id report_null_data
   \<and> process_reports (\<lambda>v. []) example_now (PList [report_null_data]) = Inl AttributeError"
  using example_reports_survive(3) null_data_report_raises by blast

text \<open>
  Claim C2, as amended. The index of the table lists the \<open>application_id\<close> of every
  surviving report, in the order of the batch: reports that carry the same identifier
  keep one row each, and nothing is removed.
\<close>

theorem process_reports_index:
  "process_reports str_of now (PList rs) = Inr df \<longrightarrow>
     df_index df = map (\<lambda>r. Some (application_id_of r)) (filter is_record_with_id rs)"
  by (simp add: process_reports_parts)

lemma duplicate_batch_table:
  "process_reports (\<lambda>v. []) example_now (PList [report_a1, report_b2, report_a1]) =
     Inr \<lparr>df_index = [Some (PStr ''A1''), Some (PStr ''B2''), Some (PStr ''A1'')],
          df_columns = [], df_rows = [[], [], []]\<rparr>"
  by code_simp

theorem process_reports_index_witness:
  "df_index \<lparr>df_index = [Some (PStr ''A1''), Some (PStr ''B2''), Some (PStr ''A1'')],
          df_columns = [], df_rows = [[], [], []]\<rparr> =
     map (\<lambda>r. Some (application_id_of r)) (filter is_record_with_id [report_a1, report_b2, report_a1])"
  using process_reports_index [of "\<lambda>v. []" example_now "[report_a1, report_b2, report_a1]"
      "\<lparr>df_index = [Some (PStr ''A1''), Some (PStr ''B2''), Some (PStr ''A1'')],
          df_columns = [], df_rows = [[], [], []]\<rparr>"]
  by (simp add: duplicate_batch_table)

text \<open>The claim as stated fails on two reports with the same identifier: the table has
  two rows for it.\<close>

theorem duplicate_id_counterexample:
  "process_reports (\<lambda>v. []) example_now (PList [report_a1, report_a1]) =
     Inr \<lparr>df_index = [Some (PStr ''A1''), Some (PStr ''A1'')],
          df_columns = [], df_rows = [[], []]\<rparr>"
  by code_simp

end
